theory Spec2Isabelle
  imports Complex_Main "HOL-Library.Word" "HOL-Library.Multiset"
begin

section \<open>JavaScript values\<close>

subsection \<open>Strings\<close>

text \<open>
  A JavaScript string is a sequence of UTF-16 code units, and \<open>length\<close>, \<open>substring\<close>,
  \<open>startsWith\<close>, \<open>includes\<close>, \<open>replace\<close> and \<open>trim\<close> all work on code units. \<open>js\<close> turns a
  literal of the source into its code units (the literals of the source are ASCII).
\<close>

type_synonym jsstring = "16 word list"

definition js :: "string \<Rightarrow> jsstring" where
  "js s = map (\<lambda>c. of_nat (of_char c)) s"

text \<open>
  ECMAScript \<open>WhiteSpace\<close> and \<open>LineTerminator\<close> code points, the ones \<open>String.prototype.trim\<close>
  strips: TAB, LF, VT, FF, CR, SP, NBSP, U+1680, U+2000..U+200A, LS, PS, U+202F, U+205F,
  U+3000 and the byte order mark. All of them are single code units.
\<close>

definition isWhiteSpace :: "16 word \<Rightarrow> bool" where
  "isWhiteSpace c \<longleftrightarrow>
     c \<in> {0x9, 0xA, 0xB, 0xC, 0xD, 0x20, 0xA0, 0x1680, 0x2028, 0x2029, 0x202F, 0x205F,
          0x3000, 0xFEFF}
     \<or> (0x2000 \<le> c \<and> c \<le> 0x200A)"

definition trim :: "jsstring \<Rightarrow> jsstring" where
  "trim s = rev (dropWhile isWhiteSpace (rev (dropWhile isWhiteSpace s)))"

definition startsWith :: "jsstring \<Rightarrow> jsstring \<Rightarrow> bool" where
  "startsWith s p \<longleftrightarrow> take (length p) s = p"

text \<open>\<open>s.includes(sub)\<close>: \<open>sub\<close> occurs in \<open>s\<close> at some position.\<close>

fun includes_str :: "jsstring \<Rightarrow> jsstring \<Rightarrow> bool" where
  "includes_str [] sub \<longleftrightarrow> sub = []"
| "includes_str (c # cs) sub \<longleftrightarrow> startsWith (c # cs) sub \<or> includes_str cs sub"

text \<open>
  \<open>s.replace(pattern, replacement)\<close> with a string pattern: only the first occurrence of the
  pattern is replaced. (The replacements of the source, \<open>""\<close> and \<open>" "\<close>, hold no \<open>$\<close>, so the
  special replacement patterns of ECMAScript play no part.)
\<close>

fun replace :: "jsstring \<Rightarrow> jsstring \<Rightarrow> jsstring \<Rightarrow> jsstring" where
  "replace [] pat rep = (if pat = [] then rep else [])"
| "replace (c # cs) pat rep =
     (if startsWith (c # cs) pat then rep @ drop (length pat) (c # cs)
      else c # replace cs pat rep)"

text \<open>\<open>parts.join(sep)\<close>.\<close>

fun join :: "jsstring \<Rightarrow> jsstring list \<Rightarrow> jsstring" where
  "join sep [] = []"
| "join sep [x] = x"
| "join sep (x # y # ys) = x @ sep @ join sep (y # ys)"

subsection \<open>Numbers\<close>

text \<open>
  A JavaScript \<open>number\<close> is a finite double (a rational), \<open>NaN\<close> or an infinity. The only
  operations the source applies to a number are the comparison with a string length and its
  use as the end index of \<open>substring\<close>.
\<close>

datatype jsnum = Finite rat | NaN | PosInfinity | NegInfinity

text \<open>\<open>n <= x\<close> for a length \<open>n\<close>: every comparison with \<open>NaN\<close> is false.\<close>

fun length_le :: "nat \<Rightarrow> jsnum \<Rightarrow> bool" where
  "length_le n (Finite q) \<longleftrightarrow> of_nat n \<le> q"
| "length_le n NaN \<longleftrightarrow> False"
| "length_le n PosInfinity \<longleftrightarrow> True"
| "length_le n NegInfinity \<longleftrightarrow> False"

text \<open>
  The index arithmetic of \<open>substring\<close>: \<open>ToIntegerOrInfinity\<close> (\<open>NaN\<close> is 0, a fraction is
  truncated towards zero), then the clamp \<open>min(max(i, 0), len)\<close>.
\<close>

fun clampIndex :: "jsnum \<Rightarrow> nat \<Rightarrow> nat" where
  "clampIndex (Finite q) len =
     nat (min (max (if q < 0 then \<lceil>q\<rceil> else \<lfloor>q\<rfloor>) 0) (int len))"
| "clampIndex NaN len = 0"
| "clampIndex PosInfinity len = len"
| "clampIndex NegInfinity len = 0"

definition substring :: "jsstring \<Rightarrow> jsnum \<Rightarrow> jsnum \<Rightarrow> jsstring" where
  "substring s start end =
     (let len = length s;
          finalStart = clampIndex start len;
          finalEnd = clampIndex end len;
          from = min finalStart finalEnd;
          to = max finalStart finalEnd
      in take (to - from) (drop from s))"


section \<open>Chat utilities (frontend/lib/chat.ts)\<close>

definition validateChatMessage :: "jsstring \<Rightarrow> bool" where
  "validateChatMessage message \<longleftrightarrow> length (trim message) > 0 \<and> length message \<le> 1000"

text \<open>
  The callback that \<open>formatChatSources\<close> maps over the sources. \<open>toUpperCase\<close> is the
  built-in of the JavaScript engine (the Unicode upper-case mapping), taken as a parameter.
\<close>

definition formatSource :: "(jsstring \<Rightarrow> jsstring) \<Rightarrow> jsstring \<Rightarrow> jsstring" where
  "formatSource toUpperCase source =
     (if startsWith source (js ''faq#'') then
        (let topic = replace (toUpperCase (replace source (js ''faq#'') (js ''''))) (js ''-'') (js '' '')
         in js ''FAQ: '' @ topic)
      else if startsWith source (js ''system#'') then js ''System''
      else source)"

text \<open>
  \<open>sources\<close> is \<open>None\<close> for the \<open>null\<close> and \<open>undefined\<close> that the guard \<open>!sources\<close> lets in.
\<close>

definition formatChatSources :: "(jsstring \<Rightarrow> jsstring) \<Rightarrow> jsstring list option \<Rightarrow> jsstring" where
  "formatChatSources toUpperCase sources =
     (case sources of
        None \<Rightarrow> js ''''
      | Some ss \<Rightarrow>
          if length ss = 0 then js ''''
          else join (js '', '') (map (formatSource toUpperCase) ss))"

definition truncateMessage :: "jsstring \<Rightarrow> jsnum \<Rightarrow> jsstring" where
  "truncateMessage message maxLength =
     (if length_le (length message) maxLength then message
      else substring message (Finite 0) maxLength @ js ''...'')"

text \<open>The default parameter \<open>maxLength = 500\<close>.\<close>

definition truncateMessage_default :: "jsstring \<Rightarrow> jsstring" where
  "truncateMessage_default message = truncateMessage message (Finite 500)"

text \<open>The upper-case mapping on ASCII strings, where it only moves \<open>a\<close>..\<open>z\<close> to \<open>A\<close>..\<open>Z\<close>.\<close>

definition toUpperCase_ascii :: "jsstring \<Rightarrow> jsstring" where
  "toUpperCase_ascii s = map (\<lambda>c. if 0x61 \<le> c \<and> c \<le> 0x7A then c - 0x20 else c) s"

text \<open>
  What the description of \<open>formatChatSources\<close> calls "only the first hyphen replaced by a
  space", written out on its own.
\<close>

fun first_hyphen_to_space :: "jsstring \<Rightarrow> jsstring" where
  "first_hyphen_to_space [] = []"
| "first_hyphen_to_space (c # cs) = (if c = 0x2D then 0x20 # cs else c # first_hyphen_to_space cs)"


section \<open>The chat proxy route (artit/app/api/chat/route.ts)\<close>

subsection \<open>JSON values, exceptions and the environment of the handler\<close>

text \<open>
  A parsed JSON value. An object lists its properties, each key once, and \<open>map_of\<close> reads a
  property; a number is a finite double, hence a rational.
\<close>

datatype json =
    JNull
  | JBool bool
  | JNumber rat
  | JString jsstring
  | JArray "json list"
  | JObject "(jsstring \<times> json) list"

text \<open>
  A thrown value, by the two \<open>instanceof\<close> tests of the \<open>catch\<close> block: a \<open>z.ZodError\<close>, a
  \<open>TypeError\<close>, or anything else (the \<open>SyntaxError\<close> of a JSON parse, a plain \<open>Error\<close>, ...).
  The argument is the \<open>message\<close> of the error.
\<close>

datatype js_error = ZodError jsstring | TypeError jsstring | OtherError jsstring

text \<open>What \<open>fetch\<close> resolves with: \<open>ok\<close>, \<open>status\<close> and the outcome of \<open>await response.json()\<close>.\<close>

record upstream_response =
  up_ok :: bool
  up_status :: nat
  up_json :: "js_error + json"

text \<open>
  The arguments of the \<open>fetch\<close> call. \<open>req_body\<close> is the value handed to \<open>JSON.stringify\<close>.
\<close>

record fetch_request =
  req_url :: jsstring
  req_method :: jsstring
  req_headers :: "(jsstring \<times> jsstring) list"
  req_body :: json

text \<open>
  What the handler reads from outside: the environment variable \<open>PYTHON_SERVICE_URL\<close>
  (\<open>None\<close> when unset), the message text zod gives the \<open>ZodError\<close> of a rejected body, and the
  behaviour of \<open>fetch\<close> (rejecting with \<open>Inl\<close>, resolving with \<open>Inr\<close>).
\<close>

record environment =
  env_PYTHON_SERVICE_URL :: "jsstring option"
  zod_message :: "json \<Rightarrow> jsstring"
  fetch :: "fetch_request \<Rightarrow> js_error + upstream_response"

text \<open>\<open>NextResponse.json(data, { status })\<close>; the status is 200 when none is given.\<close>

record response =
  res_status :: nat
  res_body :: json

text \<open>
  The lines written to the console (the timestamps of the two \<open>console.log\<close> calls are left
  out).
\<close>

datatype console_entry =
    ChatRequest jsstring
  | ChatResponse json
  | ChatApiError js_error
  | ServiceUnavailable

text \<open>What one call of the handler does: its response, its \<open>fetch\<close> calls and its console lines.\<close>

record outcome =
  returned :: response
  fetched :: "fetch_request list"
  console :: "console_entry list"

subsection \<open>The handler\<close>

text \<open>
  \<open>z.object({ message: z.string().min(1, ...) }).parse(body)\<close>: the body must be an object
  (not \<open>null\<close>, not an array) whose \<open>message\<close> is a string of at least one code unit; other
  properties are dropped. The result is the \<open>message\<close> of the destructuring.
\<close>

definition chatRequestSchema_parse :: "(json \<Rightarrow> jsstring) \<Rightarrow> json \<Rightarrow> js_error + jsstring" where
  "chatRequestSchema_parse zod_msg body =
     (case body of
        JObject props \<Rightarrow>
          (case map_of props (js ''message'') of
             Some (JString message) \<Rightarrow>
               if length message < 1 then Inl (ZodError (zod_msg body)) else Inr message
           | _ \<Rightarrow> Inl (ZodError (zod_msg body)))
      | _ \<Rightarrow> Inl (ZodError (zod_msg body)))"

text \<open>\<open>process.env.PYTHON_SERVICE_URL || "http://localhost:8001"\<close>: unset and empty are falsy.\<close>

definition PYTHON_SERVICE_URL :: "jsstring option \<Rightarrow> jsstring" where
  "PYTHON_SERVICE_URL v =
     (case v of
        None \<Rightarrow> js ''http://localhost:8001''
      | Some u \<Rightarrow> if u = [] then js ''http://localhost:8001'' else u)"

text \<open>The decimal digits of a status code, for the template literal of the thrown \<open>Error\<close>.\<close>

fun decimal :: "nat \<Rightarrow> jsstring" where
  "decimal n =
     (if n < 10 then [of_nat (48 + n)] else decimal (n div 10) @ [of_nat (48 + n mod 10)])"

declare decimal.simps [simp del]

definition chat_request :: "environment \<Rightarrow> jsstring \<Rightarrow> fetch_request" where
  "chat_request env message =
     \<lparr>req_url = PYTHON_SERVICE_URL (env_PYTHON_SERVICE_URL env) @ js ''/chat'',
      req_method = js ''POST'',
      req_headers = [(js ''Content-Type'', js ''application/json'')],
      req_body = JObject [(js ''message'', JString message)]\<rparr>"

text \<open>
  The body of the mock response. The answer is written in pieces; \<open>0x27\<close> is the apostrophe
  of \<open>I'm\<close>.
\<close>

definition mock_response :: json where
  "mock_response =
     JObject
       [(js ''answer'',
         JString (js ''I'' @ [0x27] @ js ''m so'' @
                  js ''rry, the chat service is currently unavailable. Please try again later.'')),
        (js ''sources'', JArray [JString (js ''system#unavailable'')])]"

text \<open>The \<open>catch\<close> block: the response and the console lines for a caught error.\<close>

definition catch_block :: "js_error \<Rightarrow> response \<times> console_entry list" where
  "catch_block error =
     (case error of
        ZodError message \<Rightarrow>
          (\<lparr>res_status = 400,
            res_body = JObject [(js ''error'', JString (js ''Invalid request'')),
                                (js ''details'', JString message)]\<rparr>,
           [ChatApiError error])
      | TypeError message \<Rightarrow>
          if includes_str message (js ''fetch'') then
            (\<lparr>res_status = 200, res_body = mock_response\<rparr>,
             [ChatApiError error, ServiceUnavailable])
          else
            (\<lparr>res_status = 500,
              res_body = JObject [(js ''error'', JString (js ''Internal server error''))]\<rparr>,
             [ChatApiError error])
      | OtherError message \<Rightarrow>
          (\<lparr>res_status = 500,
            res_body = JObject [(js ''error'', JString (js ''Internal server error''))]\<rparr>,
           [ChatApiError error]))"

definition caught :: "js_error \<Rightarrow> fetch_request list \<Rightarrow> console_entry list \<Rightarrow> outcome" where
  "caught error reqs logs =
     \<lparr>returned = fst (catch_block error), fetched = reqs,
      console = logs @ snd (catch_block error)\<rparr>"

text \<open>
  \<open>POST\<close>, given the outcome of \<open>await request.json()\<close>. Every \<open>await\<close> and every \<open>throw\<close> of
  the \<open>try\<close> block is a branch that ends in the \<open>catch\<close> block.
\<close>

definition POST :: "environment \<Rightarrow> js_error + json \<Rightarrow> outcome" where
  "POST env request_json =
     (case request_json of
        Inl error \<Rightarrow> caught error [] []
      | Inr body \<Rightarrow>
          (case chatRequestSchema_parse (zod_message env) body of
             Inl error \<Rightarrow> caught error [] []
           | Inr message \<Rightarrow>
               (let req = chat_request env message in
                case fetch env req of
                  Inl error \<Rightarrow> caught error [req] [ChatRequest message]
                | Inr response \<Rightarrow>
                    if \<not> up_ok response then
                      caught
                        (OtherError (js ''Python service responded with status: ''
                                     @ decimal (up_status response)))
                        [req] [ChatRequest message]
                    else
                      (case up_json response of
                         Inl error \<Rightarrow> caught error [req] [ChatRequest message]
                       | Inr data \<Rightarrow>
                           \<lparr>returned = \<lparr>res_status = 200, res_body = data\<rparr>,
                            fetched = [req],
                            console = [ChatRequest message, ChatResponse data]\<rparr>))))"

subsection \<open>Three environments\<close>

text \<open>A Python service that answers every request with an ok response carrying \<open>data\<close>.\<close>

definition service_answering :: "json \<Rightarrow> environment" where
  "service_answering data =
     \<lparr>env_PYTHON_SERVICE_URL = None,
      zod_message = (\<lambda>_. js ''Message cannot be empty''),
      fetch = (\<lambda>_. Inr \<lparr>up_ok = True, up_status = 200, up_json = Inr data\<rparr>)\<rparr>"

text \<open>A Python service that answers every request with a non-ok status and no JSON body.\<close>

definition service_failing :: "nat \<Rightarrow> environment" where
  "service_failing code =
     \<lparr>env_PYTHON_SERVICE_URL = None,
      zod_message = (\<lambda>_. js ''Message cannot be empty''),
      fetch = (\<lambda>_. Inr \<lparr>up_ok = False, up_status = code,
                             up_json = Inl (OtherError (js ''Unexpected end of JSON input''))\<rparr>)\<rparr>"

text \<open>No Python service: \<open>fetch\<close> rejects with \<open>TypeError('fetch failed')\<close>.\<close>

definition service_unreachable :: environment where
  "service_unreachable =
     \<lparr>env_PYTHON_SERVICE_URL = None,
      zod_message = (\<lambda>_. js ''Message cannot be empty''),
      fetch = (\<lambda>_. Inl (TypeError (js ''fetch failed'')))\<rparr>"


section \<open>The article query (lib/query/articles.ts)\<close>

text \<open>A row of the \<open>article\<close> table; the date is a timestamp in milliseconds.\<close>

record article =
  article_id :: jsstring
  article_title :: jsstring
  article_date :: int
  article_summary :: jsstring

datatype sort_order = Asc | Desc

text \<open>
  The contract of \<open>prisma.article.findMany({ orderBy: { date: sort } })\<close> on a table: it returns
  the rows of the table, each as often as the table holds it, ordered by date in the direction
  asked for. (The order among rows of equal date is the database's choice.)
\<close>

definition ordered_by_date :: "sort_order \<Rightarrow> article list \<Rightarrow> bool" where
  "ordered_by_date direction rows =
     (case direction of
        Asc \<Rightarrow> sorted_wrt (\<lambda>a b. article_date a \<le> article_date b) rows
      | Desc \<Rightarrow> sorted_wrt (\<lambda>a b. article_date a \<ge> article_date b) rows)"

definition findMany_orderBy_date :: "article list \<Rightarrow> (sort_order \<Rightarrow> article list) \<Rightarrow> bool" where
  "findMany_orderBy_date table findMany \<longleftrightarrow>
     (\<forall>direction. mset (findMany direction) = mset table
                  \<and> ordered_by_date direction (findMany direction))"

text \<open>
  \<open>getArticles\<close>. \<open>toLowerCase\<close> is the built-in of the JavaScript engine and \<open>findMany\<close> the
  database query, both taken as parameters; the simulated delay is left out. A non-empty
  string is truthy.
\<close>

definition getArticles ::
  "(jsstring \<Rightarrow> jsstring) \<Rightarrow> (sort_order \<Rightarrow> article list) \<Rightarrow> jsstring \<Rightarrow> sort_order \<Rightarrow> article list"
where
  "getArticles toLowerCase findMany query direction =
     (let articles = findMany direction in
      if query \<noteq> [] then
        (let queryLower = toLowerCase query in
         filter (\<lambda>article. includes_str (toLowerCase (article_title article)) queryLower
                          \<or> includes_str (toLowerCase (article_summary article)) queryLower)
           articles)
      else articles)"

text \<open>The default parameters \<open>query = ""\<close> and \<open>sort = "desc"\<close>.\<close>

definition getArticles_default ::
  "(jsstring \<Rightarrow> jsstring) \<Rightarrow> (sort_order \<Rightarrow> article list) \<Rightarrow> jsstring option \<Rightarrow> sort_order option
   \<Rightarrow> article list"
where
  "getArticles_default toLowerCase findMany query direction =
     getArticles toLowerCase findMany
       (case query of None \<Rightarrow> js '''' | Some q \<Rightarrow> q)
       (case direction of None \<Rightarrow> Desc | Some s \<Rightarrow> s)"

text \<open>
  "The title or the summary contains the query case-insensitively": both sides in lower
  case, and the query occurring somewhere in the text.
\<close>

definition contains_ci :: "(jsstring \<Rightarrow> jsstring) \<Rightarrow> jsstring \<Rightarrow> jsstring \<Rightarrow> bool" where
  "contains_ci toLowerCase text query \<longleftrightarrow>
     (\<exists>before after. toLowerCase text = before @ toLowerCase query @ after)"

definition article_matches :: "(jsstring \<Rightarrow> jsstring) \<Rightarrow> jsstring \<Rightarrow> article \<Rightarrow> bool" where
  "article_matches toLowerCase query a \<longleftrightarrow>
     contains_ci toLowerCase (article_title a) query
     \<or> contains_ci toLowerCase (article_summary a) query"

text \<open>The lower-case mapping on ASCII strings.\<close>

definition toLowerCase_ascii :: "jsstring \<Rightarrow> jsstring" where
  "toLowerCase_ascii s = map (\<lambda>c. if 0x41 \<le> c \<and> c \<le> 0x5A then c + 0x20 else c) s"

text \<open>
  Three rows of the seed data (prisma/seed.ts; \<open>0xE9\<close> is the e with acute accent, \<open>0x27\<close> the
  apostrophe), and a database that holds them.
\<close>

definition a2 :: article where
  "a2 = \<lparr>article_id = js ''a2'', article_title = js ''Marge brute vs marge nette'',
         article_date = 1736899200000,
         article_summary = js ''Comprendre les niveaux de marge et leurs usages.''\<rparr>"

definition a5 :: article where
  "a5 = \<lparr>article_id = js ''a5'', article_title = js ''Return on Equity (ROE)'',
         article_date = 1737331200000,
         article_summary = js ''Rentabilit'' @ [0xE9] @ js '' des capitaux propres investis.''\<rparr>"

definition a6 :: article where
  "a6 = \<lparr>article_id = js ''a6'', article_title = js ''Working Capital'',
         article_date = 1731628800000,
         article_summary = js ''Besoin en fonds de roulement et gestion du cycle d'' @ [0x27]
                           @ js ''exploitation.''\<rparr>"

definition seeded :: "sort_order \<Rightarrow> article list" where
  "seeded direction = (case direction of Asc \<Rightarrow> [a6, a2, a5] | Desc \<Rightarrow> [a5, a2, a6])"


section \<open>The FAQ matcher of the Python service\<close>

text \<open>
  The Python service (its loader, matcher and selector) is described by the specification
  and the service's documentation only. The definitions of this section follow the
  specification's sections 3, 4.2, 4.3 and 6.
\<close>

subsection \<open>Data model\<close>

text \<open>
  Modelled from the spec: the string type of the Python service, a sequence of code points;
  \<open>py\<close> turns an ASCII literal into one.
\<close>

type_synonym pystr = "nat list"

definition py :: "string \<Rightarrow> pystr" where
  "py s = map of_char s"

text \<open>Modelled from the spec: \<open>FAQEntry\<close> of section 3, four string fields.\<close>

record FAQEntry =
  faq_id :: pystr
  question :: pystr
  answer :: pystr
  source_tag :: pystr

text \<open>
  Modelled from the spec: \<open>MatchResult\<close>, the pair \<open>(entry, score)\<close> that the matcher
  returns for the argument-max (section 4.2, step 6). The score is a real number.
\<close>

record MatchResult =
  entry :: FAQEntry
  score :: real

text \<open>Modelled from the spec: \<open>Outcome\<close>, either \<open>Answered{answer, source_tag}\<close> or \<open>NoMatch\<close>.\<close>

datatype Outcome = Answered pystr pystr | NoMatch

text \<open>
  Modelled from the spec: the configuration of a deployment, with the documented defaults
  (threshold 0.3, at most 5000 vocabulary terms).
\<close>

record settings =
  similarity_threshold :: real
  max_features :: nat

definition default_settings :: settings where
  "default_settings = \<lparr>similarity_threshold = 3 / 10, max_features = 5000\<rparr>"

subsection \<open>Response selector\<close>

text \<open>
  Modelled from the spec: \<open>select(MatchResult, threshold)\<close> of section 4.3, "\<open>Answered\<close> iff
  \<open>score >= threshold\<close>; strictly less than threshold yields \<open>NoMatch\<close>".
\<close>

definition select :: "MatchResult \<Rightarrow> real \<Rightarrow> Outcome" where
  "select r threshold =
     (if score r \<ge> threshold then Answered (answer (entry r)) (source_tag (entry r))
      else NoMatch)"

subsection \<open>Similarity matcher, query phase\<close>

text \<open>
  Modelled from the spec: the character tables behind "lowercase, tokenize on word
  boundaries", which the specification does not spell out: the lower-case mapping of a code
  point and the set of word characters.
\<close>

record text_tables =
  to_lower :: "nat \<Rightarrow> nat"
  is_word :: "nat \<Rightarrow> bool"

text \<open>
  Modelled from the spec: tokenizing on word boundaries. The tokens are the maximal runs of
  word characters; \<open>cur\<close> is the run being read.
\<close>

fun split_words :: "(nat \<Rightarrow> bool) \<Rightarrow> pystr \<Rightarrow> pystr \<Rightarrow> pystr list" where
  "split_words w cur [] = (if cur = [] then [] else [cur])"
| "split_words w cur (c # cs) =
     (if w c then split_words w (cur @ [c]) cs
      else (if cur = [] then [] else [cur]) @ split_words w [] cs)"

text \<open>Modelled from the spec: normalization, "lowercase, tokenize on word boundaries".\<close>

definition tokenize :: "text_tables \<Rightarrow> pystr \<Rightarrow> pystr list" where
  "tokenize tb text = split_words (is_word tb) [] (map (to_lower tb) text)"

text \<open>Modelled from the spec: the contiguous 2-word sequences of a token list.\<close>

fun bigrams :: "pystr list \<Rightarrow> pystr list list" where
  "bigrams (x # y # ys) = [x, y] # bigrams (y # ys)"
| "bigrams _ = []"

text \<open>
  Modelled from the spec: the terms of a text, its "unigrams and bigrams (contiguous 1- and
  2-word sequences)". A term is the list of its words.
\<close>

definition ngrams :: "pystr list \<Rightarrow> pystr list list" where
  "ngrams tokens = map (\<lambda>t. [t]) tokens @ bigrams tokens"

text \<open>
  Modelled from the spec: what the fit phase retains (section 4.2, step 4): the vocabulary,
  each term with its IDF weight, and the knowledge base in load order, each entry with its
  normalized vector. The fit phase itself is not modelled; the query phase is defined, and the
  theorems hold, for every value of this type.
\<close>

record fitted_model =
  vocabulary :: "(pystr list \<times> real) list"
  corpus :: "(FAQEntry \<times> real list) list"

text \<open>Modelled from the spec: the error the matcher must never raise.\<close>

datatype matcher_error = ZeroDivisionError

text \<open>Modelled from the spec: division as the host language has it, raising on a zero divisor.\<close>

definition checked_divide :: "real \<Rightarrow> real \<Rightarrow> matcher_error + real" where
  "checked_divide x y = (if y = 0 then Inl ZeroDivisionError else Inr (x / y))"

text \<open>Modelled from the spec: dividing every component of a vector, stopping at an error.\<close>

fun divide_each :: "real list \<Rightarrow> real \<Rightarrow> matcher_error + real list" where
  "divide_each [] n = Inr []"
| "divide_each (x # xs) n =
     (case checked_divide x n of
        Inl e \<Rightarrow> Inl e
      | Inr y \<Rightarrow> (case divide_each xs n of Inl e \<Rightarrow> Inl e | Inr ys \<Rightarrow> Inr (y # ys)))"

text \<open>Modelled from the spec: the Euclidean length of a vector.\<close>

definition l2_norm :: "real list \<Rightarrow> real" where
  "l2_norm v = sqrt (sum_list (map (\<lambda>x. x * x) v))"

text \<open>
  Modelled from the spec: L2 normalization, where "a zero-magnitude vector short-circuits"
  and is returned as it is.
\<close>

definition l2_normalize :: "real list \<Rightarrow> matcher_error + real list" where
  "l2_normalize v = (let n = l2_norm v in if n = 0 then Inr v else divide_each v n)"

text \<open>
  Modelled from the spec: projecting the terms of a query onto the fitted vocabulary and
  applying the IDF weights (query phase, steps 2 and 3). The component of a vocabulary term is
  its number of occurrences in the query times its weight; terms absent from the vocabulary
  are counted nowhere.
\<close>

definition project :: "fitted_model \<Rightarrow> pystr list list \<Rightarrow> real list" where
  "project m terms = map (\<lambda>(t, idf). of_nat (count_list terms t) * idf) (vocabulary m)"

text \<open>Modelled from the spec: the normalized query vector (query phase, steps 1 to 3).\<close>

definition query_vector :: "text_tables \<Rightarrow> fitted_model \<Rightarrow> pystr \<Rightarrow> matcher_error + real list" where
  "query_vector tb m text = l2_normalize (project m (ngrams (tokenize tb text)))"

text \<open>Modelled from the spec: cosine similarity, the "dot product of normalized vectors".\<close>

definition cosine_similarity :: "real list \<Rightarrow> real list \<Rightarrow> real" where
  "cosine_similarity u v = sum_list (map (\<lambda>(x, y). x * y) (zip u v))"

text \<open>
  Modelled from the spec: the maximum score, "on ties, prefer the entry appearing earliest in
  the original load order". There is no result for an empty knowledge base.
\<close>

fun argmax_first :: "(FAQEntry \<times> real) list \<Rightarrow> MatchResult option" where
  "argmax_first [] = None"
| "argmax_first ((e, s) # rest) =
     (case argmax_first rest of
        None \<Rightarrow> Some \<lparr>entry = e, score = s\<rparr>
      | Some r \<Rightarrow> if s \<ge> score r then Some \<lparr>entry = e, score = s\<rparr> else Some r)"

text \<open>
  Modelled from the spec: the query phase of the matcher (steps 1 to 6): the query vector,
  its similarity to every fitted question vector, and the argument-max, "even if the score is
  0".
\<close>

definition find_best_match ::
  "text_tables \<Rightarrow> fitted_model \<Rightarrow> pystr \<Rightarrow> matcher_error + MatchResult option"
where
  "find_best_match tb m text =
     (case query_vector tb m text of
        Inl e \<Rightarrow> Inl e
      | Inr q \<Rightarrow> Inr (argmax_first (map (\<lambda>(e, v). (e, cosine_similarity q v)) (corpus m))))"

text \<open>
  Modelled from the spec: a query "whose tokens are all absent from the fitted vocabulary":
  none of its terms, the words and two-word sequences that the matcher counts, is a
  vocabulary term. (A query none of whose words occurs in any vocabulary term is one.)
\<close>

definition out_of_vocabulary :: "text_tables \<Rightarrow> fitted_model \<Rightarrow> pystr \<Rightarrow> bool" where
  "out_of_vocabulary tb m text \<longleftrightarrow>
     (\<forall>t \<in> set (ngrams (tokenize tb text)). t \<notin> fst ` set (vocabulary m))"

subsection \<open>The service\<close>

text \<open>
  Modelled from the spec: the structured log record of section 4.3, "timestamp, raw query
  text, chosen entry id (or none), and the numeric score".
\<close>

record log_record =
  log_time :: nat
  log_query :: pystr
  log_entry_id :: "pystr option"
  log_score :: "real option"

text \<open>
  Modelled from the spec: the state of a running service: the fitted model with its
  character tables, the configuration, and the log written so far.
\<close>

record service =
  fitted :: fitted_model
  tables :: text_tables
  config :: settings
  log_records :: "log_record list"

text \<open>
  Modelled from the spec: \<open>answer_query\<close> of section 6, "each inbound query flows Matcher,
  Selector, caller". It returns the match and the outcome (\<open>NoMatch\<close> is the \<open>NoMatchSignal\<close>),
  and the state with the log record appended. \<open>now\<close> is the clock reading and \<open>sink_ok\<close> tells
  whether the logging sink is available: "logging failures are swallowed".
\<close>

definition answer_query ::
  "service \<Rightarrow> nat \<Rightarrow> bool \<Rightarrow> pystr \<Rightarrow> (matcher_error + MatchResult option \<times> Outcome) \<times> service"
where
  "answer_query s now sink_ok message =
     (case find_best_match (tables s) (fitted s) message of
        Inl e \<Rightarrow> (Inl e, s)
      | Inr found \<Rightarrow>
          (let outcome =
                 (case found of
                    None \<Rightarrow> NoMatch
                  | Some r \<Rightarrow> select r (similarity_threshold (config s)));
               chosen =
                 (case (found, outcome) of
                    (Some r, Answered _ _) \<Rightarrow> Some (faq_id (entry r))
                  | _ \<Rightarrow> None);
               line = \<lparr>log_time = now, log_query = message, log_entry_id = chosen,
                       log_score = map_option score found\<rparr>
           in (Inr (found, outcome),
               if sink_ok then s\<lparr>log_records := log_records s @ [line]\<rparr> else s)))"

subsection \<open>A one-entry knowledge base\<close>

text \<open>Modelled from the spec: ASCII tables: letters, digits and the underscore are word characters.\<close>

definition ascii_tables :: text_tables where
  "ascii_tables =
     \<lparr>to_lower = (\<lambda>c. if 65 \<le> c \<and> c \<le> 90 then c + 32 else c),
      is_word = (\<lambda>c. (48 \<le> c \<and> c \<le> 57) \<or> (65 \<le> c \<and> c \<le> 90) \<or> c = 95 \<or> (97 \<le> c \<and> c \<le> 122))\<rparr>"

text \<open>Modelled from the spec: the entry of the concrete scenario of section 8.\<close>

definition ebitda :: FAQEntry where
  "ebitda = \<lparr>faq_id = py ''ebitda'', question = py ''What is EBITDA?'',
             answer = py ''EBITDA is ...'', source_tag = py ''faq#ebitda''\<rparr>"

text \<open>
  Modelled from the spec: the model fitted to that entry alone: five terms of weight
  \<open>log((1 + 1) / (1 + 1)) + 1 = 1\<close>, each once in the question.
\<close>

definition ebitda_model :: fitted_model where
  "ebitda_model =
     \<lparr>vocabulary = [([py ''what''], 1), ([py ''is''], 1), ([py ''ebitda''], 1),
                    ([py ''what'', py ''is''], 1), ([py ''is'', py ''ebitda''], 1)],
      corpus = [(ebitda, replicate 5 (1 / sqrt 5))]\<rparr>"

text \<open>Modelled from the spec: a service on that model with a given threshold and an empty log.\<close>

definition ebitda_service :: "real \<Rightarrow> service" where
  "ebitda_service threshold =
     \<lparr>fitted = ebitda_model, tables = ascii_tables,
      config = default_settings\<lparr>similarity_threshold := threshold\<rparr>, log_records = []\<rparr>"


section \<open>String lemmas\<close>

lemma js_Nil [simp]: "js [] = []"
  by (simp add: js_def)

lemma startsWith_append: "startsWith s p \<longleftrightarrow> (\<exists>r. s = p @ r)"
proof
  assume "startsWith s p"
  then have "s = p @ drop (length p) s"
    unfolding startsWith_def by (metis append_take_drop_id)
  then show "\<exists>r. s = p @ r" ..
next
  assume "\<exists>r. s = p @ r"
  then show "startsWith s p"
    by (auto simp: startsWith_def)
qed

lemma includes_str_iff: "includes_str s sub \<longleftrightarrow> (\<exists>p q. s = p @ sub @ q)"
proof (induction s)
  case Nil
  then show ?case by auto
next
  case (Cons c cs)
  show ?case
  proof
    assume "includes_str (c # cs) sub"
    then consider "startsWith (c # cs) sub" | "includes_str cs sub" by auto
    then show "\<exists>p q. c # cs = p @ sub @ q"
    proof cases
      case 1
      then obtain r where "c # cs = sub @ r" by (auto simp: startsWith_append)
      then have "c # cs = [] @ sub @ r" by simp
      then show ?thesis by blast
    next
      case 2
      then obtain p q where "cs = p @ sub @ q" using Cons.IH by auto
      then have "c # cs = (c # p) @ sub @ q" by simp
      then show ?thesis by blast
    qed
  next
    assume "\<exists>p q. c # cs = p @ sub @ q"
    then obtain p q where pq: "c # cs = p @ sub @ q" by auto
    show "includes_str (c # cs) sub"
    proof (cases p)
      case Nil
      then have "startsWith (c # cs) sub" using pq by (auto simp: startsWith_append)
      then show ?thesis by simp
    next
      case (Cons a p')
      then have "cs = p' @ sub @ q" using pq by simp
      then have "includes_str cs sub" using Cons.IH by blast
      then show ?thesis by simp
    qed
  qed
qed

lemma replace_prefix: "startsWith s pat \<Longrightarrow> replace s pat rep = rep @ drop (length pat) s"
  by (cases s) (auto simp: startsWith_def)

lemma replace_hyphen: "replace s (js ''-'') (js '' '') = first_hyphen_to_space s"
  by (induction s) (auto simp: js_def startsWith_def)

text \<open>What \<open>first_hyphen_to_space\<close> does to a string without and with a hyphen.\<close>

lemma first_hyphen_absent: "0x2D \<notin> set s \<Longrightarrow> first_hyphen_to_space s = s"
  by (induction s) auto

lemma first_hyphen_present:
  "0x2D \<notin> set p \<Longrightarrow> first_hyphen_to_space (p @ 0x2D # q) = p @ 0x20 # q"
  by (induction p) auto

lemma join_Cons: "join sep (x # xs) = x @ concat (map (\<lambda>y. sep @ y) xs)"
  by (induction xs arbitrary: x) auto

lemma trim_Nil_iff: "trim s = [] \<longleftrightarrow> (\<forall>c\<in>set s. isWhiteSpace c)"
proof -
  let ?d = "dropWhile isWhiteSpace s"
  have "trim s = [] \<longleftrightarrow> (\<forall>c\<in>set ?d. isWhiteSpace c)"
    by (simp add: trim_def)
  also have "\<dots> \<longleftrightarrow> ?d = []"
  proof
    assume all: "\<forall>c\<in>set ?d. isWhiteSpace c"
    show "?d = []"
    proof (rule ccontr)
      assume ne: "?d \<noteq> []"
      then have "\<not> isWhiteSpace (hd ?d)" by (rule hd_dropWhile)
      moreover have "hd ?d \<in> set ?d" using ne by simp
      ultimately show False using all by blast
    qed
  next
    assume e: "?d = []"
    show "\<forall>c\<in>set ?d. isWhiteSpace c" unfolding e by simp
  qed
  also have "\<dots> \<longleftrightarrow> (\<forall>c\<in>set s. isWhiteSpace c)"
    by simp
  finally show ?thesis .
qed

section \<open>Chat utilities: proofs\<close>

text \<open>
  Claim C2. \<open>validateChatMessage(m)\<close> is true exactly when \<open>m\<close> trimmed is non-empty and the
  untrimmed length of \<open>m\<close> is at most 1000; and the trimmed string is non-empty exactly when
  \<open>m\<close> holds a code unit that is not white space.
\<close>

theorem validateChatMessage_iff:
  "(validateChatMessage m \<longleftrightarrow> trim m \<noteq> [] \<and> length m \<le> 1000)
   \<and> (trim m \<noteq> [] \<longleftrightarrow> (\<exists>c\<in>set m. \<not> isWhiteSpace c))"
  by (simp add: validateChatMessage_def trim_Nil_iff)

text \<open>The messages of the unit tests: valid, blank, and at and above the length bound.\<close>

theorem validateChatMessage_iff_witness:
  "validateChatMessage (js ''What is EBITDA?'')
   \<and> \<not> validateChatMessage (js ''  '')
   \<and> \<not> validateChatMessage [0xA, 0x9, 0x20, 0x20]
   \<and> validateChatMessage (replicate 1000 0x41)
   \<and> \<not> validateChatMessage (replicate 1001 0x41)"
  using validateChatMessage_iff [of "js ''What is EBITDA?''"]
    validateChatMessage_iff [of "js ''  ''"]
    validateChatMessage_iff [of "[0xA, 0x9, 0x20, 0x20]"]
    validateChatMessage_iff [of "replicate 1000 0x41"]
    validateChatMessage_iff [of "replicate 1001 0x41"]
  by (simp add: js_def isWhiteSpace_def)

lemma clampIndex_le: "clampIndex n len \<le> len"
  by (cases n) auto

lemma substring_from_zero: "substring s (Finite 0) n = take (clampIndex n (length s)) s"
  by (simp add: substring_def Let_def)

lemma truncateMessage_nat:
  "k < length m \<Longrightarrow> truncateMessage m (Finite (of_nat k)) = take k m @ js ''...''"
  by (simp add: truncateMessage_def substring_from_zero)

lemma truncated_still_longer:
  assumes "\<not> length_le (length m) n"
  shows "\<not> length_le (clampIndex n (length m) + 3) n"
proof (cases n)
  case (Finite q)
  with assms have lt: "q < of_nat (length m)" by simp
  show ?thesis
  proof (cases "q < 0")
    case True
    then show ?thesis using Finite by simp
  next
    case False
    then have "\<lfloor>q\<rfloor> < int (length m)" using lt by linarith
    moreover have "0 \<le> \<lfloor>q\<rfloor>" using False by simp
    ultimately have "clampIndex n (length m) = nat \<lfloor>q\<rfloor>"
      using Finite False by simp
    moreover have "q < of_int \<lfloor>q\<rfloor> + 3" by linarith
    moreover have "(of_int \<lfloor>q\<rfloor> :: rat) = of_nat (nat \<lfloor>q\<rfloor>)"
      using \<open>0 \<le> \<lfloor>q\<rfloor>\<close> by simp
    ultimately show ?thesis using Finite by simp
  qed
qed (use assms in simp_all)

lemma truncateMessage_idem: "truncateMessage (truncateMessage m n) n = truncateMessage m n"
proof (cases "length_le (length m) n")
  case True
  then show ?thesis by (simp add: truncateMessage_def)
next
  case False
  let ?k = "clampIndex n (length m)"
  let ?r = "take ?k m @ js ''...''"
  have r: "truncateMessage m n = ?r"
    using False by (simp add: truncateMessage_def substring_from_zero)
  have k: "?k \<le> length m" by (rule clampIndex_le)
  have len: "length ?r = ?k + 3" using k by (simp add: js_def)
  have "\<not> length_le (length ?r) n"
    unfolding len using False by (rule truncated_still_longer)
  moreover have "clampIndex n (length ?r) = ?k"
  proof (cases n)
    case (Finite q)
    with False have "q < of_nat (length m)" by simp
    then have "\<lfloor>q\<rfloor> < int (length m)" by linarith
    then show ?thesis unfolding len using Finite by (auto simp: min_def max_def)
  next
    case PosInfinity
    then show ?thesis using False by simp
  qed simp_all
  ultimately have "truncateMessage ?r n = take ?k ?r @ js ''...''"
    by (simp add: truncateMessage_def substring_from_zero)
  also have "take ?k ?r = take ?k m" using k by simp
  finally show ?thesis using r by simp
qed

text \<open>
  Claim C9, as the code has it. \<open>truncateMessage\<close> returns the message unchanged when its
  length is at most \<open>maxLength\<close>. For a non-negative integer \<open>maxLength = k\<close> below the
  length it returns the first \<open>k\<close> code units followed by \<open>"..."\<close>, a string of length
  \<open>k + 3\<close>. For every \<open>maxLength\<close> whatsoever (negative, fractional, \<open>NaN\<close> and the infinities
  included) truncating twice is the same as truncating once.
\<close>

theorem truncateMessage_spec:
  "(length_le (length m) n \<longrightarrow> truncateMessage m n = m)
   \<and> (k < length m \<longrightarrow>
        truncateMessage m (Finite (of_nat k)) = take k m @ js ''...''
        \<and> length (truncateMessage m (Finite (of_nat k))) = k + 3)
   \<and> truncateMessage (truncateMessage m n) n = truncateMessage m n"
proof (intro conjI impI)
  assume "length_le (length m) n"
  then show "truncateMessage m n = m" by (simp add: truncateMessage_def)
next
  assume k: "k < length m"
  then show eq: "truncateMessage m (Finite (of_nat k)) = take k m @ js ''...''"
    by (rule truncateMessage_nat)
  show "length (truncateMessage m (Finite (of_nat k))) = k + 3"
    unfolding eq using k by (simp add: js_def)
next
  show "truncateMessage (truncateMessage m n) n = truncateMessage m n"
    by (rule truncateMessage_idem)
qed

text \<open>The test cases \<open>truncateMessage('A', 1)\<close> and \<open>truncateMessage('AB', 1)\<close>.\<close>

theorem truncateMessage_spec_witness:
  "length_le (length (js ''A'')) (Finite 1) \<and> truncateMessage (js ''A'') (Finite 1) = js ''A''
   \<and> 1 < length (js ''AB'') \<and> truncateMessage (js ''AB'') (Finite 1) = js ''A...''
   \<and> length (truncateMessage (js ''AB'') (Finite 1)) = 4
   \<and> truncateMessage (js ''A...'') (Finite 1) = js ''A...''"
  using truncateMessage_spec [of "js ''A''" "Finite 1" 0]
    truncateMessage_spec [of "js ''AB''" "Finite 1" 1]
  by (simp add: js_def truncateMessage_def substring_def)

text \<open>
  Claim C9 as stated speaks of every \<open>maxLength\<close>. With \<open>maxLength = -1\<close> the guard
  \<open>2 <= -1\<close> fails, \<open>substring(0, -1)\<close> is empty, and the result \<open>"..."\<close> has length 3, not
  \<open>maxLength + 3 = 2\<close>.
\<close>

theorem truncateMessage_negative_counterexample:
  "\<not> length_le (length (js ''AB'')) (Finite (- 1))
   \<and> truncateMessage (js ''AB'') (Finite (- 1)) = js ''...''
   \<and> rat_of_nat (length (truncateMessage (js ''AB'') (Finite (- 1)))) \<noteq> - 1 + 3"
  by (simp add: truncateMessage_def substring_def js_def)

lemma faq_not_system: "startsWith s (js ''system#'') \<Longrightarrow> \<not> startsWith s (js ''faq#'')"
  by (cases s) (auto simp: startsWith_def js_def)

text \<open>
  Claim C10. \<open>formatChatSources\<close> returns the empty string for a missing or empty list;
  otherwise the rendered sources are joined with \<open>", "\<close> in input order. A source starting
  with \<open>faq#\<close> renders as \<open>"FAQ: "\<close> followed by the rest of the source in upper case with
  only its first hyphen replaced by a space; a source starting with \<open>system#\<close> renders as
  \<open>"System"\<close>; any other source is passed through unchanged.
\<close>

theorem formatChatSources_spec:
  "formatChatSources up None = js ''''
   \<and> formatChatSources up (Some []) = js ''''
   \<and> formatChatSources up (Some (s # ss)) =
       formatSource up s @ concat (map (\<lambda>t. js '', '' @ formatSource up t) ss)
   \<and> (startsWith src (js ''faq#'') \<longrightarrow>
        formatSource up src = js ''FAQ: '' @ first_hyphen_to_space (up (drop 4 src)))
   \<and> (startsWith src (js ''system#'') \<longrightarrow> formatSource up src = js ''System'')
   \<and> (\<not> startsWith src (js ''faq#'') \<and> \<not> startsWith src (js ''system#'') \<longrightarrow>
        formatSource up src = src)"
proof (intro conjI impI)
  show "formatChatSources up None = js ''''" "formatChatSources up (Some []) = js ''''"
    by (simp_all add: formatChatSources_def)
  show "formatChatSources up (Some (s # ss)) =
       formatSource up s @ concat (map (\<lambda>t. js '', '' @ formatSource up t) ss)"
    by (simp add: formatChatSources_def join_Cons comp_def del: join.simps)
next
  assume faq: "startsWith src (js ''faq#'')"
  have "length (js ''faq#'') = 4" by (simp add: js_def)
  then have "replace src (js ''faq#'') (js '''') = drop 4 src"
    using replace_prefix [OF faq, of "js ''''"] by simp
  then show "formatSource up src = js ''FAQ: '' @ first_hyphen_to_space (up (drop 4 src))"
    using faq by (simp add: formatSource_def replace_hyphen)
next
  assume "startsWith src (js ''system#'')"
  then show "formatSource up src = js ''System''"
    using faq_not_system [of src] by (simp add: formatSource_def)
next
  assume "\<not> startsWith src (js ''faq#'') \<and> \<not> startsWith src (js ''system#'')"
  then show "formatSource up src = src" by (simp add: formatSource_def)
qed

text \<open>
  The sources \<open>faq#free-cash-flow\<close> (the later hyphen stays), \<open>system#unavailable\<close> and
  \<open>doc#article-1\<close>, and a list of two sources.
\<close>

theorem formatChatSources_spec_witness:
  "startsWith (js ''faq#free-cash-flow'') (js ''faq#'')
   \<and> formatSource toUpperCase_ascii (js ''faq#free-cash-flow'') = js ''FAQ: FREE CASH-FLOW''
   \<and> startsWith (js ''system#unavailable'') (js ''system#'')
   \<and> formatSource toUpperCase_ascii (js ''system#unavailable'') = js ''System''
   \<and> \<not> startsWith (js ''doc#article-1'') (js ''faq#'')
   \<and> \<not> startsWith (js ''doc#article-1'') (js ''system#'')
   \<and> formatSource toUpperCase_ascii (js ''doc#article-1'') = js ''doc#article-1''
   \<and> formatChatSources toUpperCase_ascii (Some [js ''faq#ebitda'', js ''system#unavailable''])
       = js ''FAQ: EBITDA, System''"
  using formatChatSources_spec [of toUpperCase_ascii "js ''faq#ebitda''" "[js ''system#unavailable'']"
      "js ''faq#free-cash-flow''"]
    formatChatSources_spec [of toUpperCase_ascii "js ''faq#ebitda''" "[js ''system#unavailable'']"
      "js ''system#unavailable''"]
    formatChatSources_spec [of toUpperCase_ascii "js ''faq#ebitda''" "[js ''system#unavailable'']"
      "js ''doc#article-1''"]
    formatChatSources_spec [of toUpperCase_ascii "js ''faq#ebitda''" "[js ''system#unavailable'']"
      "js ''faq#ebitda''"]
  by (simp add: js_def startsWith_def toUpperCase_ascii_def)



text \<open>Cases of the unit tests of the repository (tests/chat-utils.test.ts).\<close>

lemma formatChatSources_tests:
  "formatChatSources toUpperCase_ascii (Some [js ''faq#marge-brute'']) = js ''FAQ: MARGE BRUTE''"
  "formatChatSources toUpperCase_ascii (Some [js ''faq#ebitda'', js ''faq#marge-brute''])
     = js ''FAQ: EBITDA, FAQ: MARGE BRUTE''"
  "formatChatSources toUpperCase_ascii (Some [js ''unknown-source'']) = js ''unknown-source''"
  "formatChatSources toUpperCase_ascii None = js ''''"
  by (simp_all add: formatChatSources_def formatSource_def startsWith_def toUpperCase_ascii_def
      js_def)

lemma truncateMessage_tests:
  "truncateMessage_default (js '''') = js ''''"
  "truncateMessage_default (replicate 600 0x41) = replicate 500 0x41 @ js ''...''"
  "truncateMessage (replicate 200 0x41) (Finite 50) = replicate 50 0x41 @ js ''...''"
proof -
  show "truncateMessage_default (js '''') = js ''''"
    by (simp add: truncateMessage_default_def truncateMessage_def)
  have "truncateMessage (replicate 600 0x41) (Finite (of_nat 500)) = take 500 (replicate 600 0x41) @ js ''...''"
    by (rule truncateMessage_nat) simp
  then show "truncateMessage_default (replicate 600 0x41) = replicate 500 0x41 @ js ''...''"
    by (simp add: truncateMessage_default_def)
  have "truncateMessage (replicate 200 0x41) (Finite (of_nat 50)) = take 50 (replicate 200 0x41) @ js ''...''"
    by (rule truncateMessage_nat) simp
  then show "truncateMessage (replicate 200 0x41) (Finite 50) = replicate 50 0x41 @ js ''...''"
    by simp
qed


section \<open>The chat proxy route: proofs\<close>

lemma POST_rejected:
  assumes "chatRequestSchema_parse (zod_message env) body = Inl error"
  shows "POST env (Inr body) = caught error [] []"
  using assms by (simp add: POST_def)

lemma POST_fetching:
  assumes "chatRequestSchema_parse (zod_message env) body = Inr message"
  shows "POST env (Inr body) =
           (case fetch env (chat_request env message) of
              Inl error \<Rightarrow> caught error [chat_request env message] [ChatRequest message]
            | Inr response \<Rightarrow>
                if \<not> up_ok response then
                  caught
                    (OtherError (js ''Python service responded with status: ''
                                 @ decimal (up_status response)))
                    [chat_request env message] [ChatRequest message]
                else
                  (case up_json response of
                     Inl error \<Rightarrow> caught error [chat_request env message] [ChatRequest message]
                   | Inr data \<Rightarrow>
                       \<lparr>returned = \<lparr>res_status = 200, res_body = data\<rparr>,
                        fetched = [chat_request env message],
                        console = [ChatRequest message, ChatResponse data]\<rparr>))"
  using assms by (simp add: POST_def Let_def)

lemma parse_message:
  assumes "map_of props (js ''message'') = Some (JString message)"
  shows "chatRequestSchema_parse zm (JObject props) =
           (if message = [] then Inl (ZodError (zm (JObject props))) else Inr message)"
  using assms by (simp add: chatRequestSchema_parse_def)

lemma returned_caught_mock:
  "returned (caught error reqs logs) = \<lparr>res_status = 200, res_body = mock_response\<rparr>
   \<longleftrightarrow> (\<exists>msg. error = TypeError msg \<and> includes_str msg (js ''fetch''))"
  by (cases error) (auto simp: caught_def catch_block_def)






lemma parse_error_is_ZodError:
  "chatRequestSchema_parse zm body = Inl error \<Longrightarrow> error = ZodError (zm body)"
  by (auto simp: chatRequestSchema_parse_def split: json.splits option.splits if_splits)

text \<open>
  Claim C8, as the code has it. When the request passes validation and \<open>fetch\<close> throws a
  \<open>TypeError\<close> whose message contains \<open>"fetch"\<close>, the handler returns the mock fallback body with
  status 200. When the Python service responds with a non-ok status, the handler returns 500
  with \<open>{"error": "Internal server error"}\<close>, which is not the mock fallback. Conversely the
  mock body with status 200 is returned only when one of the awaited calls of the \<open>try\<close> block
  (\<open>request.json()\<close>, \<open>fetch\<close> or \<open>response.json()\<close>) throws such a \<open>TypeError\<close>, or when the Python
  service itself answers ok with exactly that JSON body.
\<close>

theorem POST_mock_fallback:
  "(chatRequestSchema_parse (zod_message env) body = Inr message
      \<and> fetch env (chat_request env message) = Inl (TypeError msg)
      \<and> includes_str msg (js ''fetch'')
     \<longrightarrow> returned (POST env (Inr body)) = \<lparr>res_status = 200, res_body = mock_response\<rparr>)
   \<and> (chatRequestSchema_parse (zod_message env) body = Inr message
      \<and> fetch env (chat_request env message) = Inr up
      \<and> \<not> up_ok up
     \<longrightarrow> returned (POST env (Inr body)) =
           \<lparr>res_status = 500,
            res_body = JObject [(js ''error'', JString (js ''Internal server error''))]\<rparr>
         \<and> returned (POST env (Inr body)) \<noteq> \<lparr>res_status = 200, res_body = mock_response\<rparr>)
   \<and> (returned (POST env request_json) = \<lparr>res_status = 200, res_body = mock_response\<rparr>
     \<longrightarrow> (\<exists>m. includes_str m (js ''fetch'')
              \<and> (request_json = Inl (TypeError m)
                 \<or> (\<exists>b message. request_json = Inr b
                       \<and> chatRequestSchema_parse (zod_message env) b = Inr message
                       \<and> (fetch env (chat_request env message) = Inl (TypeError m)
                          \<or> (\<exists>r. fetch env (chat_request env message) = Inr r \<and> up_ok r
                                \<and> up_json r = Inl (TypeError m))))))
         \<or> (\<exists>b message r. request_json = Inr b
               \<and> chatRequestSchema_parse (zod_message env) b = Inr message
               \<and> fetch env (chat_request env message) = Inr r \<and> up_ok r
               \<and> up_json r = Inr mock_response))"
proof (intro conjI impI)
  assume "chatRequestSchema_parse (zod_message env) body = Inr message
      \<and> fetch env (chat_request env message) = Inl (TypeError msg)
      \<and> includes_str msg (js ''fetch'')"
  then show "returned (POST env (Inr body)) = \<lparr>res_status = 200, res_body = mock_response\<rparr>"
    using POST_fetching [of env body message] by (auto simp: returned_caught_mock)
next
  assume a: "chatRequestSchema_parse (zod_message env) body = Inr message
      \<and> fetch env (chat_request env message) = Inr up \<and> \<not> up_ok up"
  then show r: "returned (POST env (Inr body)) =
           \<lparr>res_status = 500,
            res_body = JObject [(js ''error'', JString (js ''Internal server error''))]\<rparr>"
    using POST_fetching [of env body message] by (simp add: caught_def catch_block_def)
  show "returned (POST env (Inr body)) \<noteq> \<lparr>res_status = 200, res_body = mock_response\<rparr>"
    unfolding r by simp
next
  assume mock: "returned (POST env request_json) = \<lparr>res_status = 200, res_body = mock_response\<rparr>"
  let ?L = "\<exists>m. includes_str m (js ''fetch'')
              \<and> (request_json = Inl (TypeError m)
                 \<or> (\<exists>b message. request_json = Inr b
                       \<and> chatRequestSchema_parse (zod_message env) b = Inr message
                       \<and> (fetch env (chat_request env message) = Inl (TypeError m)
                          \<or> (\<exists>r. fetch env (chat_request env message) = Inr r \<and> up_ok r
                                \<and> up_json r = Inl (TypeError m)))))"
  let ?R = "\<exists>b message r. request_json = Inr b
               \<and> chatRequestSchema_parse (zod_message env) b = Inr message
               \<and> fetch env (chat_request env message) = Inr r \<and> up_ok r
               \<and> up_json r = Inr mock_response"
  show "?L \<or> ?R"
  proof (cases request_json)
    case (Inl e)
    then have "returned (caught e [] []) = \<lparr>res_status = 200, res_body = mock_response\<rparr>"
      using mock by (simp add: POST_def)
    then show ?thesis using Inl by (auto simp: returned_caught_mock)
  next
    case (Inr b)
    show ?thesis
    proof (cases "chatRequestSchema_parse (zod_message env) b")
      case (Inl e)
      then have "e = ZodError (zod_message env b)" by (rule parse_error_is_ZodError)
      moreover have "returned (caught e [] []) = \<lparr>res_status = 200, res_body = mock_response\<rparr>"
        using mock POST_rejected [OF Inl] \<open>request_json = Inr b\<close> by simp
      ultimately show ?thesis by (simp add: returned_caught_mock)
    next
      case parsed: (Inr message)
      note step = POST_fetching [OF parsed]
      show ?thesis
      proof (cases "fetch env (chat_request env message)")
        case (Inl e)
        then have "returned (caught e [chat_request env message] [ChatRequest message])
                     = \<lparr>res_status = 200, res_body = mock_response\<rparr>"
          using mock step \<open>request_json = Inr b\<close> by simp
        then obtain m where "e = TypeError m" "includes_str m (js ''fetch'')"
          by (auto simp: returned_caught_mock)
        then have ?L using Inl parsed \<open>request_json = Inr b\<close> by blast
        then show ?thesis ..
      next
        case fetched: (Inr r)
        show ?thesis
        proof (cases "up_ok r")
          case False
          then have "returned (POST env (Inr b)) \<noteq> \<lparr>res_status = 200, res_body = mock_response\<rparr>"
            using step fetched by (simp add: caught_def catch_block_def)
          then show ?thesis using mock \<open>request_json = Inr b\<close> by simp
        next
          case True
          show ?thesis
          proof (cases "up_json r")
            case (Inl e)
            then have "returned (caught e [chat_request env message] [ChatRequest message])
                         = \<lparr>res_status = 200, res_body = mock_response\<rparr>"
              using mock step fetched True \<open>request_json = Inr b\<close> by simp
            then obtain m where "e = TypeError m" "includes_str m (js ''fetch'')"
              by (auto simp: returned_caught_mock)
            then have ?L using Inl parsed fetched True \<open>request_json = Inr b\<close> by blast
            then show ?thesis ..
          next
            case (Inr data)
            then have "data = mock_response"
              using mock step fetched True \<open>request_json = Inr b\<close> by simp
            then have ?R using Inr parsed fetched True \<open>request_json = Inr b\<close> by blast
            then show ?thesis ..
          qed
        qed
      qed
    qed
  qed
qed

text \<open>The two route tests: the service unreachable, and the service answering 500.\<close>

theorem POST_mock_fallback_witness:
  "returned (POST service_unreachable (Inr (JObject [(js ''message'', JString (js ''What is EBITDA?''))])))
     = \<lparr>res_status = 200, res_body = mock_response\<rparr>
   \<and> returned (POST (service_failing 500) (Inr (JObject [(js ''message'', JString (js ''What is EBITDA?''))])))
     = \<lparr>res_status = 500,
        res_body = JObject [(js ''error'', JString (js ''Internal server error''))]\<rparr>"
proof -
  let ?body = "JObject [(js ''message'', JString (js ''What is EBITDA?''))]"
  have p: "chatRequestSchema_parse zm ?body = Inr (js ''What is EBITDA?'')" for zm
    by (simp add: chatRequestSchema_parse_def js_def)
  have f1: "fetch service_unreachable (chat_request service_unreachable (js ''What is EBITDA?''))
            = Inl (TypeError (js ''fetch failed''))"
    by (simp add: service_unreachable_def)
  have i: "includes_str (js ''fetch failed'') (js ''fetch'')"
    by (simp add: js_def startsWith_def)
  have f2: "fetch (service_failing 500) (chat_request (service_failing 500) (js ''What is EBITDA?''))
            = Inr \<lparr>up_ok = False, up_status = 500,
                   up_json = Inl (OtherError (js ''Unexpected end of JSON input''))\<rparr>"
    by (simp add: service_failing_def)
  show ?thesis
    using POST_mock_fallback [of service_unreachable ?body "js ''What is EBITDA?''" "js ''fetch failed''"]
      POST_mock_fallback [of "service_failing 500" ?body "js ''What is EBITDA?''" _
         "\<lparr>up_ok = False, up_status = 500,
           up_json = Inl (OtherError (js ''Unexpected end of JSON input''))\<rparr>"]
      p f1 f2 i
    by simp
qed

text \<open>
  Claim C8 as stated says the mock body with status 200 is returned exactly when \<open>fetch\<close>
  throws. Here \<open>fetch\<close> resolves with an ok response whose JSON body is that very object, and
  the handler passes it on with status 200.
\<close>

theorem POST_same_body_counterexample:
  "fetch (service_answering mock_response)
      (chat_request (service_answering mock_response) (js ''Is the service up?''))
     = Inr \<lparr>up_ok = True, up_status = 200, up_json = Inr mock_response\<rparr>
   \<and> returned (POST (service_answering mock_response)
        (Inr (JObject [(js ''message'', JString (js ''Is the service up?''))])))
     = \<lparr>res_status = 200, res_body = mock_response\<rparr>"
  by (simp add: POST_def chatRequestSchema_parse_def service_answering_def js_def)



text \<open>
  Two more cases of the route tests: a body that is not JSON (\<open>request.json()\<close> throws a
  \<open>SyntaxError\<close>), and bodies without a \<open>message\<close>.
\<close>

lemma POST_malformed_json:
  "returned (POST env (Inl (OtherError msg))) =
     \<lparr>res_status = 500, res_body = JObject [(js ''error'', JString (js ''Internal server error''))]\<rparr>"
  "fetched (POST env (Inl (OtherError msg))) = []"
  by (simp_all add: POST_def caught_def catch_block_def)

lemma POST_not_an_object:
  "returned (POST env (Inr (JArray xs))) =
     \<lparr>res_status = 400,
      res_body = JObject [(js ''error'', JString (js ''Invalid request'')),
                          (js ''details'', JString (zod_message env (JArray xs)))]\<rparr>"
  "returned (POST env (Inr (JObject []))) =
     \<lparr>res_status = 400,
      res_body = JObject [(js ''error'', JString (js ''Invalid request'')),
                          (js ''details'', JString (zod_message env (JObject [])))]\<rparr>"
  by (simp_all add: POST_def chatRequestSchema_parse_def caught_def catch_block_def)


section \<open>The article query: proofs\<close>

lemma article_matches_includes:
  "article_matches lower query =
     (\<lambda>a. includes_str (lower (article_title a)) (lower query)
        \<or> includes_str (lower (article_summary a)) (lower query))"
  by (rule ext) (simp add: article_matches_def contains_ci_def includes_str_iff)

lemma getArticles_filter:
  "getArticles lower findMany query direction =
     (if query = [] then findMany direction
      else filter (article_matches lower query) (findMany direction))"
  by (simp add: getArticles_def Let_def article_matches_includes)

lemma ordered_by_date_filter:
  "ordered_by_date direction rows \<Longrightarrow> ordered_by_date direction (filter P rows)"
  by (cases direction) (simp_all add: ordered_by_date_def sorted_wrt_filter)

text \<open>
  Claim C7. Given a database query that meets its contract, \<open>getArticles\<close> returns articles
  ordered by date in the requested direction; for a non-empty query it returns the rows of
  the database, in the database's order, whose title or summary contains the query
  case-insensitively, each as often as the table holds it; for the empty query it returns
  all rows unfiltered.
\<close>

theorem getArticles_spec:
  assumes "findMany_orderBy_date table findMany"
  shows "ordered_by_date direction (getArticles lower findMany query direction)
    \<and> (query \<noteq> [] \<longrightarrow>
         getArticles lower findMany query direction = filter (article_matches lower query) (findMany direction)
         \<and> mset (getArticles lower findMany query direction)
             = filter_mset (article_matches lower query) (mset table))
    \<and> (query = [] \<longrightarrow>
         getArticles lower findMany query direction = findMany direction
         \<and> mset (getArticles lower findMany query direction) = mset table)"
proof -
  from assms have m: "mset (findMany direction) = mset table"
    and o: "ordered_by_date direction (findMany direction)"
    by (simp_all add: findMany_orderBy_date_def)
  have "mset (filter (article_matches lower query) (findMany direction))
          = filter_mset (article_matches lower query) (mset table)"
    using m by (metis mset_filter)
  then show ?thesis
    using m o by (simp add: getArticles_filter ordered_by_date_filter)
qed

lemma seeded_dates:
  "article_date a6 \<le> article_date a2" "article_date a2 \<le> article_date a5"
  by (simp_all add: a2_def a5_def a6_def)

lemma seeded_contract: "findMany_orderBy_date [a2, a5, a6] seeded"
  unfolding findMany_orderBy_date_def
proof
  fix direction
  have "article_date a6 \<le> article_date a5" using seeded_dates by linarith
  then show "mset (seeded direction) = mset [a2, a5, a6]
      \<and> ordered_by_date direction (seeded direction)"
    using seeded_dates by (cases direction) (simp_all add: seeded_def ordered_by_date_def)
qed

lemma seeded_matches:
  "includes_str (toLowerCase_ascii (article_summary a5)) (toLowerCase_ascii (js ''CAPITA''))"
  "includes_str (toLowerCase_ascii (article_title a6)) (toLowerCase_ascii (js ''CAPITA''))"
  "\<not> includes_str (toLowerCase_ascii (article_title a2)) (toLowerCase_ascii (js ''CAPITA''))"
  "\<not> includes_str (toLowerCase_ascii (article_summary a2)) (toLowerCase_ascii (js ''CAPITA''))"
  by (simp_all add: a2_def a5_def a6_def toLowerCase_ascii_def js_def startsWith_def)

text \<open>
  The query \<open>CAPITA\<close> finds "Working Capital" by its title and "Return on Equity" by its
  summary ("capitaux"), in both directions.
\<close>

theorem getArticles_spec_witness:
  "findMany_orderBy_date [a2, a5, a6] seeded
   \<and> getArticles toLowerCase_ascii seeded (js ''CAPITA'') Desc = [a5, a6]
   \<and> getArticles toLowerCase_ascii seeded (js ''CAPITA'') Asc = [a6, a5]
   \<and> getArticles toLowerCase_ascii seeded (js '''') Desc = [a5, a2, a6]"
proof -
  have ne: "js ''CAPITA'' \<noteq> []" by (simp add: js_def)
  show ?thesis
    using getArticles_spec [OF seeded_contract, of Desc toLowerCase_ascii "js ''CAPITA''"]
      getArticles_spec [OF seeded_contract, of Asc toLowerCase_ascii "js ''CAPITA''"]
      getArticles_spec [OF seeded_contract, of Desc toLowerCase_ascii "js ''''"]
      seeded_contract seeded_matches ne
    by (simp add: seeded_def article_matches_includes)
qed



section \<open>The FAQ matcher: proofs\<close>

lemma divide_each_ok: "n \<noteq> 0 \<Longrightarrow> divide_each v n = Inr (map (\<lambda>x. x / n) v)"
  by (induction v) (simp_all add: checked_divide_def)

lemma l2_normalize_ok:
  "l2_normalize v = Inr (if l2_norm v = 0 then v else map (\<lambda>x. x / l2_norm v) v)"
  by (simp add: l2_normalize_def Let_def divide_each_ok)

lemma l2_norm_zero: "l2_norm (replicate n 0) = 0"
  by (simp add: l2_norm_def sum_list_replicate)

lemma cosine_zero: "cosine_similarity (replicate n 0) v = 0"
proof (induction n arbitrary: v)
  case 0
  then show ?case by (simp add: cosine_similarity_def)
next
  case (Suc n)
  then show ?case by (cases v) (simp_all add: cosine_similarity_def)
qed

lemma argmax_first_zero:
  "argmax_first (map (\<lambda>(e, v). (e, 0)) c) =
     (case c of [] \<Rightarrow> None | (e, v) # rest \<Rightarrow> Some \<lparr>entry = e, score = 0\<rparr>)"
proof (induction c)
  case Nil
  then show ?case by simp
next
  case (Cons p c)
  obtain e v where p: "p = (e, v)" by (cases p)
  show ?case
  proof (cases c)
    case Nil
    then show ?thesis by (simp add: p)
  next
    case (Cons p' c')
    then show ?thesis using Cons.IH by (auto simp: p split: prod.splits)
  qed
qed

lemma bigrams_words: "t \<in> set (bigrams toks) \<Longrightarrow> t \<noteq> [] \<and> set t \<subseteq> set toks"
  by (induction toks rule: bigrams.induct) auto

lemma ngrams_words: "t \<in> set (ngrams toks) \<Longrightarrow> t \<noteq> [] \<and> set t \<subseteq> set toks"
  by (auto simp: ngrams_def dest: bigrams_words)

lemma unknown_words_out_of_vocabulary:
  assumes "\<forall>w \<in> set (tokenize tb text). \<forall>t \<in> fst ` set (vocabulary m). w \<notin> set t"
  shows "out_of_vocabulary tb m text"
  unfolding out_of_vocabulary_def
proof
  fix t
  assume t: "t \<in> set (ngrams (tokenize tb text))"
  then have "t \<noteq> []" and sub: "set t \<subseteq> set (tokenize tb text)"
    using ngrams_words by blast+
  then have "hd t \<in> set t" by simp
  then have "hd t \<in> set (tokenize tb text)" using sub by blast
  then show "t \<notin> fst ` set (vocabulary m)"
    using assms \<open>hd t \<in> set t\<close> by blast
qed


lemma project_out_of_vocabulary:
  assumes "out_of_vocabulary tb m text"
  shows "project m (ngrams (tokenize tb text)) = replicate (length (vocabulary m)) 0"
proof -
  have "count_list (ngrams (tokenize tb text)) t = 0" if "(t, w) \<in> set (vocabulary m)" for t w
  proof -
    have "t \<in> fst ` set (vocabulary m)" using that by force
    then have "t \<notin> set (ngrams (tokenize tb text))"
      using assms by (auto simp: out_of_vocabulary_def)
    then show ?thesis by (simp add: count_list_0_iff)
  qed
  then have "map (\<lambda>(t, idf). of_nat (count_list (ngrams (tokenize tb text)) t) * idf) (vocabulary m)
             = map (\<lambda>_. 0::real) (vocabulary m)"
    by (intro map_cong) auto
  then show ?thesis by (simp add: project_def map_replicate_const)
qed

lemma empty_query_out_of_vocabulary: "out_of_vocabulary tb m []"
  by (simp add: out_of_vocabulary_def tokenize_def ngrams_def)

lemma find_best_match_out_of_vocabulary:
  assumes "out_of_vocabulary tb m text"
  shows "query_vector tb m text = Inr (replicate (length (vocabulary m)) 0)"
    and "find_best_match tb m text =
           Inr (case corpus m of [] \<Rightarrow> None | (e, v) # rest \<Rightarrow> Some \<lparr>entry = e, score = 0\<rparr>)"
proof -
  show q: "query_vector tb m text = Inr (replicate (length (vocabulary m)) 0)"
    by (simp add: query_vector_def project_out_of_vocabulary [OF assms] l2_normalize_ok l2_norm_zero)
  show "find_best_match tb m text =
           Inr (case corpus m of [] \<Rightarrow> None | (e, v) # rest \<Rightarrow> Some \<lparr>entry = e, score = 0\<rparr>)"
    by (simp add: find_best_match_def q cosine_zero argmax_first_zero)
qed

text \<open>
  Claim C4. For every match result and every threshold, \<open>select\<close> returns
  \<open>Answered{answer, source_tag}\<close> of the matched entry exactly when the score is greater than or
  equal to the threshold, and \<open>NoMatch\<close> when the score is strictly less. The default threshold
  is 0.3, and \<open>answer_query\<close> applies whatever threshold the configuration of the service
  holds.
\<close>

theorem select_threshold:
  "((\<exists>a t. select r threshold = Answered a t) \<longleftrightarrow> threshold \<le> score r)
   \<and> (threshold \<le> score r \<longrightarrow>
        select r threshold = Answered (answer (entry r)) (source_tag (entry r)))
   \<and> (score r < threshold \<longrightarrow> select r threshold = NoMatch)
   \<and> similarity_threshold default_settings = 3 / 10
   \<and> (find_best_match (tables s) (fitted s) text = Inr (Some r) \<longrightarrow>
        fst (answer_query (s\<lparr>config := cfg\<rparr>) now sink_ok text)
          = Inr (Some r, select r (similarity_threshold cfg)))"
  by (simp add: select_def default_settings_def answer_query_def Let_def)

text \<open>
  Scores at and just below the default threshold, and the second one against a lower
  threshold.
\<close>

theorem select_threshold_witness:
  "select \<lparr>entry = ebitda, score = 3 / 10\<rparr> (3 / 10) = Answered (py ''EBITDA is ...'') (py ''faq#ebitda'')
   \<and> select \<lparr>entry = ebitda, score = 29 / 100\<rparr> (3 / 10) = NoMatch
   \<and> select \<lparr>entry = ebitda, score = 29 / 100\<rparr> (1 / 4) = Answered (py ''EBITDA is ...'') (py ''faq#ebitda'')"
  using select_threshold [of "\<lparr>entry = ebitda, score = 3 / 10\<rparr>" "3 / 10"]
    select_threshold [of "\<lparr>entry = ebitda, score = 29 / 100\<rparr>" "3 / 10"]
    select_threshold [of "\<lparr>entry = ebitda, score = 29 / 100\<rparr>" "1 / 4"]
  by (simp add: ebitda_def)


lemma garbage_out_of_vocabulary: "out_of_vocabulary ascii_tables ebitda_model (py ''#?! zzz'')"
  by (simp add: out_of_vocabulary_def tokenize_def ngrams_def ascii_tables_def ebitda_model_def
      py_def)



lemma fst_answer_query:
  "fst (answer_query s now sink_ok text) =
     (case find_best_match (tables s) (fitted s) text of
        Inl e \<Rightarrow> Inl e
      | Inr found \<Rightarrow>
          Inr (found, case found of None \<Rightarrow> NoMatch
                      | Some r \<Rightarrow> select r (similarity_threshold (config s))))"
  by (simp add: answer_query_def Let_def split: sum.splits)



text \<open>
  The tie-break, and the concrete scenario of the specification: the question of the entry
  itself scores 1.
\<close>

lemma argmax_first_tie:
  "argmax_first [(e1, s), (e2, s)] = Some \<lparr>entry = e1, score = s\<rparr>"
  by simp

lemma tokenize_example:
  "tokenize ascii_tables (py ''What is EBITDA?'') = [py ''what'', py ''is'', py ''ebitda'']"
  by (simp add: tokenize_def ascii_tables_def py_def)

lemma self_similarity:
  "find_best_match ascii_tables ebitda_model (py ''What is EBITDA?'')
     = Inr (Some \<lparr>entry = ebitda, score = 1\<rparr>)"
proof -
  have t: "ngrams (tokenize ascii_tables (py ''What is EBITDA?''))
        = [[py ''what''], [py ''is''], [py ''ebitda''], [py ''what'', py ''is''], [py ''is'', py ''ebitda'']]"
    by (simp add: tokenize_example ngrams_def)
  have p: "project ebitda_model (ngrams (tokenize ascii_tables (py ''What is EBITDA?''))) = [1, 1, 1, 1, 1]"
    unfolding t by (simp add: project_def ebitda_model_def py_def)
  have n: "l2_norm [1, 1, 1, 1, 1] = sqrt 5" by (simp add: l2_norm_def)
  have q: "query_vector ascii_tables ebitda_model (py ''What is EBITDA?'') = Inr (replicate 5 (1 / sqrt 5))"
    by (simp add: query_vector_def p l2_normalize_ok n numeral_eq_Suc)
  have "cosine_similarity (replicate 5 (1 / sqrt 5)) (replicate 5 (1 / sqrt 5)) = 1"
    by (simp add: cosine_similarity_def numeral_eq_Suc)
  moreover have "corpus ebitda_model = [(ebitda, replicate 5 (1 / sqrt 5))]"
    by (simp add: ebitda_model_def)
  ultimately show ?thesis
    by (simp add: find_best_match_def q)
qed


end
